theory Spec2Isabelle
  imports Main
begin

section \<open>Data model of the BuyBuzz server (src/index.js)\<close>

text \<open>
  The server keeps all of its state in six MySQL tables, created in \<open>initializeDB\<close>.
  Every handler is a sequence of queries against them, so a handler is modelled as a
  function from the database state (and the request) to a response and a new state.

  Conventions of the model:
  \<^item> a \<open>DECIMAL(10,2)\<close> column is an \<open>int\<close> counting hundredths (GHS 20.00 is \<open>2000\<close>);
    the column's upper range is not modelled. The pool is created without
    \<open>decimalNumbers\<close>, so a query hands such a value to the handler as a string
    (\<open>decimal_str\<close>): the handler's \<open><\<close> between two of them compares strings
    (\<open>js_less\<close>), and between one of them and a JSON number it compares numbers;
  \<^item> an amount the payment provider reports is a count of the currency's subunit, a
    \<open>nat\<close>; the handlers divide it by 100 to get GHS, so in hundredths it is the same number;
  \<^item> a thrown exception that reaches a handler's outer \<open>catch\<close> is the error response
    that \<open>catch\<close> sends;
  \<^item> \<open>START TRANSACTION\<close> ... \<open>COMMIT\<close> with \<open>ROLLBACK\<close> in the \<open>catch\<close> is
    modelled as written: a failing statement restores the state the transaction started in;
  \<^item> results of calls that leave the program (\<open>JSON.parse\<close>, the provider's answer,
    \<open>Date.now()\<close>, \<open>Math.random()\<close>) are arguments of the handler;
  \<^item> a handler runs to its end before the next request is handled. The purchase is also
    given in two halves, split where its transaction starts, to describe two purchases
    that are in flight together.
\<close>

type_synonym user_id = nat
type_synonym money = int

datatype level = Bronze | Silver | Gold | Platinum

datatype tx_type = credit | debit | transfer_in | transfer_out | purchase | refund

datatype tx_status = pending | completed | failed | cancelled

datatype order_status = pending_payment | processing | order_completed | order_failed | refunded

record user_row =
  u_id :: user_id
  u_email :: string

record wallet =
  balance :: money
  level :: level

record wallet_transaction =
  tx_user_id :: user_id
  transaction_id :: string
  reference :: "string option"
  tx_type :: tx_type
  amount :: money
  status :: tx_status
  description :: string

record order_row =
  order_id :: string
  o_user_id :: user_id
  order_type :: string
  product_name :: string
  network :: string
  bundle_size :: string
  o_amount :: money
  beneficiary_number :: string
  o_status :: order_status

record product =
  p_network :: string
  p_bundle_size :: string
  price :: money
  p_active :: bool

text \<open>
  \<open>wallets.user_id\<close> is \<open>UNIQUE\<close>, so the table is a partial map from the user to the
  row. \<open>order_sequence\<close> is a table of rows holding \<open>last_number\<close>; the code reads the
  first row and updates all of them.
\<close>

record db =
  users :: "user_row list"
  wallets :: "user_id \<rightharpoonup> wallet"
  wallet_transactions :: "wallet_transaction list"
  orders :: "order_row list"
  order_sequence :: "nat list"
  data_bundle_products :: "product list"

datatype error = Http nat string

section \<open>Helpers: SQL statements and string rendering\<close>

definition digit :: "nat \<Rightarrow> char" where
  "digit d = ''0123456789'' ! d"

text \<open>Decimal rendering of a non-negative integer, as a template literal does it.\<close>

fun dec :: "nat \<Rightarrow> string" where
  "dec n = (if n < 10 then [digit n] else dec (n div 10) @ [digit (n mod 10)])"

declare dec.simps [simp del]

text \<open>\<open>`BUZZ-${seq[0].last_number + 1}`\<close> is \<open>order_code (last_number + 1)\<close>.\<close>

definition order_code :: "nat \<Rightarrow> string" where
  "order_code n = ''BUZZ-'' @ dec n"

text \<open>The string a query returns for a \<open>DECIMAL(10,2)\<close> value: \<open>5000\<close> is \<open>''50.00''\<close>,
  \<open>-100\<close> is \<open>''-1.00''\<close>.\<close>

definition decimal_str :: "money \<Rightarrow> string" where
  "decimal_str m =
     (if m < 0 then ''-'' else []) @ dec (nat \<bar>m\<bar> div 100) @ ''.'' @
     [digit (nat \<bar>m\<bar> mod 100 div 10), digit (nat \<bar>m\<bar> mod 10)]"

text \<open>JavaScript's \<open><\<close> on two strings: the code units are compared from the left, and a
  proper prefix is the smaller string.\<close>

fun js_less :: "string \<Rightarrow> string \<Rightarrow> bool" where
  "js_less [] [] = False"
| "js_less [] (y # ys) = True"
| "js_less (x # xs) [] = False"
| "js_less (x # xs) (y # ys) =
     (if (of_char x :: nat) < of_char y then True
      else if (of_char y :: nat) < of_char x then False
      else js_less xs ys)"

text \<open>\<open>UPDATE wallets SET balance = balance + ? WHERE user_id = ?\<close>: no row, no change.\<close>

definition add_balance :: "(user_id \<rightharpoonup> wallet) \<Rightarrow> user_id \<Rightarrow> money \<Rightarrow> (user_id \<rightharpoonup> wallet)" where
  "add_balance ws u d =
     (case ws u of None \<Rightarrow> ws | Some w \<Rightarrow> ws(u \<mapsto> w\<lparr>balance := balance w + d\<rparr>))"

text \<open>\<open>INSERT INTO wallet_transactions\<close>: \<open>transaction_id\<close> is \<open>UNIQUE\<close>; a duplicate key
  makes the statement fail (\<open>None\<close>).\<close>

definition insert_transaction ::
  "wallet_transaction list \<Rightarrow> wallet_transaction \<Rightarrow> wallet_transaction list option" where
  "insert_transaction ts t =
     (if transaction_id t \<in> set (map transaction_id ts) then None else Some (ts @ [t]))"

text \<open>\<open>INSERT INTO orders\<close>: \<open>order_id\<close> is \<open>UNIQUE\<close>.\<close>

definition insert_order :: "order_row list \<Rightarrow> order_row \<Rightarrow> order_row list option" where
  "insert_order os x =
     (if order_id x \<in> set (map order_id os) then None else Some (os @ [x]))"

section \<open>Reading the wallet: GET /api/wallet and GET /api/dashboard\<close>

record wallet_response =
  wr_wallet :: wallet
  wr_transactions :: "wallet_transaction list"

text \<open>Rows are kept in insertion order, the order of \<open>created_at\<close>; the query returns the
  20 newest rows of the user.\<close>

definition get_wallet :: "db \<Rightarrow> user_id \<Rightarrow> error + wallet_response" where
  "get_wallet d uid =
     (let wallet = (case wallets d uid of
                      Some w \<Rightarrow> w
                    | None \<Rightarrow> \<lparr>balance = 0, level = Bronze\<rparr>);
          transactions = take 20 (rev (filter (\<lambda>t. tx_user_id t = uid) (wallet_transactions d)))
      in Inr \<lparr>wr_wallet = wallet, wr_transactions = transactions\<rparr>)"

record dashboard_response =
  dr_user :: "user_row option"
  dr_wallet :: wallet
  dr_total_orders :: nat
  dr_completed_orders :: nat
  dr_pending_orders :: nat
  dr_total_sales :: money

text \<open>The dashboard's \<open>recent_activity\<close> list (formatted dates) is left out of the response.\<close>

definition get_dashboard :: "db \<Rightarrow> user_id \<Rightarrow> error + dashboard_response" where
  "get_dashboard d userId =
     (let mine = filter (\<lambda>x. o_user_id x = userId) (orders d)
      in Inr \<lparr>dr_user = (case filter (\<lambda>u. u_id u = userId) (users d) of
                            [] \<Rightarrow> None | u # _ \<Rightarrow> Some u),
              dr_wallet = (case wallets d userId of
                             Some w \<Rightarrow> w
                           | None \<Rightarrow> \<lparr>balance = 0, level = Bronze\<rparr>),
              dr_total_orders = length mine,
              dr_completed_orders = length (filter (\<lambda>x. o_status x = order_completed) mine),
              dr_pending_orders =
                length (filter (\<lambda>x. o_status x = pending_payment \<or> o_status x = processing) mine),
              dr_total_sales = 125050\<rparr>)"

section \<open>The Paystack webhook: POST /api/webhook/paystack\<close>

record event =
  ev_event :: string
  ev_reference :: string
  ev_amount :: nat

text \<open>
  The handler, lines 419-468. \<open>digest\<close> is the outcome of
  \<open>createHmac('sha512', secret).update(req.body).digest('hex')\<close>: the hex digest, or
  \<open>None\<close> when the call throws, as \<open>update\<close> does on a body that is neither a string nor
  a buffer. \<open>signature\<close> is the \<open>x-paystack-signature\<close> header (absent: \<open>None\<close>), \<open>parsed\<close>
  the outcome of \<open>JSON.parse\<close> and of reading \<open>event.data\<close> (\<open>None\<close> when \<open>JSON.parse\<close>
  throws, or when a \<open>charge.success\<close> event has no readable \<open>data\<close>).
  The first \<open>UPDATE\<close> has no status condition: it rewrites every row of the reference.
\<close>

definition paystack_webhook ::
  "db \<Rightarrow> string option \<Rightarrow> string option \<Rightarrow> event option \<Rightarrow> (error + unit) \<times> db" where
  "paystack_webhook d digest signature parsed =
     (case digest of
        None \<Rightarrow> (Inl (Http 500 ''Webhook processing failed''), d)
      | Some hash \<Rightarrow>
          if Some hash \<noteq> signature then (Inl (Http 401 ''Invalid signature''), d)
          else case parsed of
            None \<Rightarrow> (Inl (Http 500 ''Webhook processing failed''), d)
          | Some ev \<Rightarrow>
              if ev_event ev = ''charge.success'' then
                (case filter (\<lambda>t. reference t = Some (ev_reference ev) \<and> status t = pending)
                        (wallet_transactions d) of
                   [] \<Rightarrow> (Inr (), d)
                 | transaction # _ \<Rightarrow>
                     (let amountInGHS = int (ev_amount ev)
                      in (Inr (),
                          d\<lparr>wallet_transactions :=
                               map (\<lambda>t. if reference t = Some (ev_reference ev)
                                         then t\<lparr>status := completed, amount := amountInGHS\<rparr>
                                         else t)
                                 (wallet_transactions d),
                             wallets :=
                               add_balance (wallets d) (tx_user_id transaction) amountInGHS\<rparr>)))
              else (Inr (), d))"

text \<open>
  The route as the application mounts it. \<open>express.json()\<close> is installed for every
  route (line 16) and runs before the route's own \<open>express.raw\<close>. A body it cannot parse
  goes to the error handler (lines 938-949); \<open>body_rejected\<close> says so. Otherwise
  \<open>req.body\<close> is an object when the handler starts, the parsed JSON or the empty object
  of a request that is not JSON, and \<open>express.raw\<close> leaves it alone. The handler
  therefore never holds the raw bytes: \<open>update(req.body)\<close> throws, so there is no
  digest, and \<open>JSON.parse(req.body.toString())\<close> would throw as well.
\<close>

definition post_webhook_paystack :: "db \<Rightarrow> bool \<Rightarrow> string option \<Rightarrow> (error + unit) \<times> db" where
  "post_webhook_paystack d body_rejected signature =
     (if body_rejected then (Inl (Http 500 ''Internal server error''), d)
      else paystack_webhook d None signature None)"

section \<open>Manual verification: GET /api/wallet/topup/verify/:reference\<close>

datatype verify_response = Verified "wallet option" | Not_successful

text \<open>
  \<open>provider\<close> is Paystack's answer to the verify call: \<open>None\<close> when the call throws,
  otherwise the transaction's status and amount. The status update is restricted to the
  caller's rows of the reference; the balance update has no condition on the ledger.
\<close>

definition topup_verify ::
  "db \<Rightarrow> user_id \<Rightarrow> string \<Rightarrow> (string \<times> nat) option \<Rightarrow> (error + verify_response) \<times> db" where
  "topup_verify d uid ref provider =
     (case provider of
        None \<Rightarrow> (Inl (Http 500 ''Verification failed''), d)
      | Some (st, amt) \<Rightarrow>
          if st = ''success'' then
            (let amountInGHS = int amt;
                 d' = d\<lparr>wallet_transactions :=
                          map (\<lambda>t. if reference t = Some ref \<and> tx_user_id t = uid
                                    then t\<lparr>status := completed\<rparr> else t)
                            (wallet_transactions d),
                        wallets := add_balance (wallets d) uid amountInGHS\<rparr>
             in (Inr (Verified (wallets d' uid)), d'))
          else (Inr Not_successful, d))"

section \<open>Purchase: POST /api/data/buy\<close>

record buy_response =
  br_order_id :: string
  br_amount :: money
  br_status :: order_status
  br_beneficiary :: string

text \<open>
  Lines 553-584: validation, price lookup, balance check and the read of the sequence
  counter, all before \<open>START TRANSACTION\<close>. The result is the price and the number of
  the order code. In \<open>wallets[0].balance < price\<close> both sides come from a query, so two
  strings are compared: \<open>''9.00''\<close> is not below \<open>''10.00''\<close>, and \<open>''100.00''\<close> is
  below \<open>''40.00''\<close>.
\<close>

definition buy_check :: "db \<Rightarrow> user_id \<Rightarrow> string \<Rightarrow> string \<Rightarrow> string \<Rightarrow> error + (money \<times> nat)" where
  "buy_check d uid net bsize beneficiary =
     (if net \<notin> set [''MTN'', ''Telecel'', ''AirtelTigo''] then Inl (Http 400 ''Invalid network'')
      else if bsize = [] \<or> beneficiary = [] then
        Inl (Http 400 ''Bundle size and beneficiary number are required'')
      else case filter (\<lambda>p. p_network p = net \<and> p_bundle_size p = bsize \<and> p_active p)
                  (data_bundle_products d) of
        [] \<Rightarrow> Inl (Http 400 ''Invalid bundle selection'')
      | p # _ \<Rightarrow>
          (case wallets d uid of
             None \<Rightarrow> Inl (Http 500 ''Data purchase failed'')
           | Some w \<Rightarrow>
               if js_less (decimal_str (balance w)) (decimal_str (price p)) then
                 Inl (Http 400 ''Insufficient wallet balance'')
               else (case order_sequence d of
                       [] \<Rightarrow> Inl (Http 500 ''Data purchase failed'')
                     | last_number # _ \<Rightarrow> Inr (price p, last_number + 1))))"

text \<open>
  Lines 586-655: the transaction. \<open>now\<close> and \<open>rnd\<close> are \<open>Date.now()\<close> and the random
  suffix of the transaction id. The ledger row is written with type \<open>debit\<close>. The
  delivery that a timer simulates three seconds later is a separate, later write to the
  order's status and not part of the handler's result.
\<close>

definition buy_commit ::
  "db \<Rightarrow> user_id \<Rightarrow> string \<Rightarrow> string \<Rightarrow> string \<Rightarrow> money \<Rightarrow> nat \<Rightarrow> nat \<Rightarrow> string \<Rightarrow>
   (error + buy_response) \<times> db" where
  "buy_commit d uid net bsize beneficiary pr n now rnd =
     (let ws = add_balance (wallets d) uid (- pr);
          transactionId = ''DATA-'' @ dec now @ ''-'' @ rnd
      in case insert_transaction (wallet_transactions d)
                \<lparr>tx_user_id = uid, transaction_id = transactionId, reference = None,
                 tx_type = debit, amount = pr, status = completed,
                 description = net @ '' '' @ bsize @ '' data bundle''\<rparr> of
           None \<Rightarrow> (Inl (Http 500 ''Data purchase failed''), d)
         | Some ts \<Rightarrow>
             (case insert_order (orders d)
                     \<lparr>order_id = order_code n, o_user_id = uid, order_type = ''data_bundle'',
                      product_name = net @ '' '' @ bsize, network = net, bundle_size = bsize,
                      o_amount = pr, beneficiary_number = beneficiary,
                      o_status = processing\<rparr> of
                None \<Rightarrow> (Inl (Http 500 ''Data purchase failed''), d)
              | Some os \<Rightarrow>
                  (Inr \<lparr>br_order_id = order_code n, br_amount = pr, br_status = processing,
                        br_beneficiary = beneficiary\<rparr>,
                   d\<lparr>wallets := ws, wallet_transactions := ts, orders := os,
                     order_sequence := map Suc (order_sequence d)\<rparr>)))"

definition buy ::
  "db \<Rightarrow> user_id \<Rightarrow> string \<Rightarrow> string \<Rightarrow> string \<Rightarrow> nat \<Rightarrow> string \<Rightarrow> (error + buy_response) \<times> db" where
  "buy d uid net bsize beneficiary now rnd =
     (case buy_check d uid net bsize beneficiary of
        Inl e \<Rightarrow> (Inl e, d)
      | Inr (pr, n) \<Rightarrow> buy_commit d uid net bsize beneficiary pr n now rnd)"

section \<open>Transfer: POST /api/wallet/transfer\<close>

text \<open>
  \<open>transfer\<close> is the handler for a request that carries the amount as a JSON number
  (\<open>amt\<close>, in hundredths): \<open>senderWallet[0].balance < amount\<close> then compares numbers.
  \<open>uid\<close> and \<open>email\<close> are the caller's id and email from the token; \<open>now1\<close> and
  \<open>now2\<close> are the two readings of \<open>Date.now()\<close>. An absent or empty \<open>note\<close> adds nothing
  to the description. Both ledger rows are written without a reference. The balance in
  the response is read after \<open>COMMIT\<close>: were the sender's row missing then, the handler
  would answer 500 with the transfer already committed.
\<close>

definition note_suffix :: "string \<Rightarrow> string" where
  "note_suffix note = (if note = [] then [] else '': '' @ note)"

definition transfer ::
  "db \<Rightarrow> user_id \<Rightarrow> string \<Rightarrow> string \<Rightarrow> money \<Rightarrow> string \<Rightarrow> nat \<Rightarrow> nat \<Rightarrow> (error + money) \<times> db" where
  "transfer d uid email recipient_email amt note now1 now2 =
     (if recipient_email = [] \<or> amt \<le> 0 then
        (Inl (Http 400 ''Valid recipient email and amount required''), d)
      else if recipient_email = email then (Inl (Http 400 ''Cannot transfer to yourself''), d)
      else case filter (\<lambda>u. u_email u = recipient_email) (users d) of
        [] \<Rightarrow> (Inl (Http 404 ''Recipient not found''), d)
      | recipient # _ \<Rightarrow>
          (case wallets d uid of
             None \<Rightarrow> (Inl (Http 500 ''Transfer failed''), d)
           | Some senderWallet \<Rightarrow>
               if balance senderWallet < amt then (Inl (Http 400 ''Insufficient balance''), d)
               else
                 (let ws1 = add_balance (wallets d) uid (- amt)
                  in case insert_transaction (wallet_transactions d)
                            \<lparr>tx_user_id = uid, transaction_id = ''TRANSFER-OUT-'' @ dec now1,
                             reference = None, tx_type = transfer_out, amount = amt,
                             status = completed,
                             description = ''Transfer to '' @ recipient_email @ note_suffix note\<rparr> of
                       None \<Rightarrow> (Inl (Http 500 ''Transfer failed''), d)
                     | Some ts1 \<Rightarrow>
                         (let ws2 = add_balance ws1 (u_id recipient) amt
                          in case insert_transaction ts1
                                    \<lparr>tx_user_id = u_id recipient,
                                     transaction_id = ''TRANSFER-IN-'' @ dec now2,
                                     reference = None, tx_type = transfer_in, amount = amt,
                                     status = completed,
                                     description = ''Transfer from '' @ email @ note_suffix note\<rparr> of
                               None \<Rightarrow> (Inl (Http 500 ''Transfer failed''), d)
                             | Some ts2 \<Rightarrow>
                                 (case ws2 uid of
                                    None \<Rightarrow>
                                      (Inl (Http 500 ''Transfer failed''),
                                       d\<lparr>wallets := ws2, wallet_transactions := ts2\<rparr>)
                                  | Some updatedWallet \<Rightarrow>
                                      (Inr (balance updatedWallet),
                                       d\<lparr>wallets := ws2, wallet_transactions := ts2\<rparr>))))))"

text \<open>
  A request that carries the amount as a JSON string. The code reads the string in three
  ways: as a number in \<open>!amount || amount <= 0\<close> (\<open>sa_nonpos\<close>: that number is not
  above zero; the empty string is refused as well), as a string in
  \<open>senderWallet[0].balance < amount\<close>, where two strings are compared, and as MySQL reads
  it in the four statements (\<open>sa_sql\<close>, \<open>None\<close> when a statement rejects it). The
  statements of the transaction (lines 862-919) are the same as in \<open>transfer\<close>.
\<close>

record string_amount =
  sa_text :: string
  sa_nonpos :: bool
  sa_sql :: "money option"

definition transfer_commit ::
  "db \<Rightarrow> user_id \<Rightarrow> string \<Rightarrow> string \<Rightarrow> user_row \<Rightarrow> money \<Rightarrow> string \<Rightarrow> nat \<Rightarrow> nat \<Rightarrow>
   (error + money) \<times> db" where
  "transfer_commit d uid email recipient_email recipient amt note now1 now2 =
     (let ws1 = add_balance (wallets d) uid (- amt)
      in case insert_transaction (wallet_transactions d)
                \<lparr>tx_user_id = uid, transaction_id = ''TRANSFER-OUT-'' @ dec now1,
                 reference = None, tx_type = transfer_out, amount = amt,
                 status = completed,
                 description = ''Transfer to '' @ recipient_email @ note_suffix note\<rparr> of
           None \<Rightarrow> (Inl (Http 500 ''Transfer failed''), d)
         | Some ts1 \<Rightarrow>
             (let ws2 = add_balance ws1 (u_id recipient) amt
              in case insert_transaction ts1
                        \<lparr>tx_user_id = u_id recipient,
                         transaction_id = ''TRANSFER-IN-'' @ dec now2,
                         reference = None, tx_type = transfer_in, amount = amt,
                         status = completed,
                         description = ''Transfer from '' @ email @ note_suffix note\<rparr> of
                   None \<Rightarrow> (Inl (Http 500 ''Transfer failed''), d)
                 | Some ts2 \<Rightarrow>
                     (case ws2 uid of
                        None \<Rightarrow>
                          (Inl (Http 500 ''Transfer failed''),
                           d\<lparr>wallets := ws2, wallet_transactions := ts2\<rparr>)
                      | Some updatedWallet \<Rightarrow>
                          (Inr (balance updatedWallet),
                           d\<lparr>wallets := ws2, wallet_transactions := ts2\<rparr>))))"

definition transfer_string ::
  "db \<Rightarrow> user_id \<Rightarrow> string \<Rightarrow> string \<Rightarrow> string_amount \<Rightarrow> string \<Rightarrow> nat \<Rightarrow> nat \<Rightarrow>
   (error + money) \<times> db" where
  "transfer_string d uid email recipient_email amt note now1 now2 =
     (if recipient_email = [] \<or> sa_text amt = [] \<or> sa_nonpos amt then
        (Inl (Http 400 ''Valid recipient email and amount required''), d)
      else if recipient_email = email then (Inl (Http 400 ''Cannot transfer to yourself''), d)
      else case filter (\<lambda>u. u_email u = recipient_email) (users d) of
        [] \<Rightarrow> (Inl (Http 404 ''Recipient not found''), d)
      | recipient # _ \<Rightarrow>
          (case wallets d uid of
             None \<Rightarrow> (Inl (Http 500 ''Transfer failed''), d)
           | Some senderWallet \<Rightarrow>
               if js_less (decimal_str (balance senderWallet)) (sa_text amt) then
                 (Inl (Http 400 ''Insufficient balance''), d)
               else (case sa_sql amt of
                       None \<Rightarrow> (Inl (Http 500 ''Transfer failed''), d)
                     | Some v \<Rightarrow>
                         transfer_commit d uid email recipient_email recipient v note now1 now2)))"

section \<open>Sequences of requests\<close>

datatype request =
    Webhook bool "string option"
  | Verify user_id string "(string \<times> nat) option"
  | Buy user_id string string string nat string
  | Transfer user_id string string money string nat nat
  | Transfer_string user_id string string string_amount string nat nat

fun handle :: "db \<Rightarrow> request \<Rightarrow> db" where
  "handle d (Webhook body_rejected signature) = snd (post_webhook_paystack d body_rejected signature)"
| "handle d (Verify uid ref provider) = snd (topup_verify d uid ref provider)"
| "handle d (Buy uid net bsize beneficiary now rnd) = snd (buy d uid net bsize beneficiary now rnd)"
| "handle d (Transfer uid email recipient_email amt note now1 now2) =
     snd (transfer d uid email recipient_email amt note now1 now2)"
| "handle d (Transfer_string uid email recipient_email amt note now1 now2) =
     snd (transfer_string d uid email recipient_email amt note now1 now2)"

fun run :: "db \<Rightarrow> request list \<Rightarrow> db" where
  "run d [] = d"
| "run d (r # rs) = run (handle d r) rs"

section \<open>The ledger's reading of a balance\<close>

text \<open>The direction of an entry follows from its type: \<open>credit\<close>, \<open>transfer_in\<close> and
  \<open>refund\<close> add to the balance, \<open>debit\<close>, \<open>purchase\<close> and \<open>transfer_out\<close> take from it.\<close>

fun signed_amount :: "wallet_transaction \<Rightarrow> money" where
  "signed_amount t =
     (case tx_type t of
        credit \<Rightarrow> amount t | transfer_in \<Rightarrow> amount t | refund \<Rightarrow> amount t
      | debit \<Rightarrow> - amount t | purchase \<Rightarrow> - amount t | transfer_out \<Rightarrow> - amount t)"

definition ledger_net :: "db \<Rightarrow> user_id \<Rightarrow> money" where
  "ledger_net d u =
     sum_list (map signed_amount
       (filter (\<lambda>t. tx_user_id t = u \<and> status t = completed) (wallet_transactions d)))"

definition reconstructs :: "db \<Rightarrow> user_id \<Rightarrow> bool" where
  "reconstructs d u = (case wallets d u of None \<Rightarrow> False | Some w \<Rightarrow> balance w = ledger_net d u)"

definition seq_head :: "db \<Rightarrow> nat" where
  "seq_head d = (case order_sequence d of [] \<Rightarrow> 0 | last_number # _ \<Rightarrow> last_number)"

text \<open>Every order's code was rendered from a number not above the counter.\<close>

definition codes_below :: "db \<Rightarrow> bool" where
  "codes_below d = (\<forall>x \<in> set (orders d). \<exists>k \<le> seq_head d. order_id x = order_code k)"

section \<open>Concrete states\<close>

text \<open>The products \<open>initializeDB\<close> inserts, and the state it leaves: the admin user is
  inserted into \<open>users\<close> only, without a wallet row.\<close>

definition default_products :: "product list" where
  "default_products =
     [\<lparr>p_network = ''MTN'', p_bundle_size = ''1GB'', price = 1000, p_active = True\<rparr>,
      \<lparr>p_network = ''MTN'', p_bundle_size = ''2GB'', price = 1800, p_active = True\<rparr>,
      \<lparr>p_network = ''MTN'', p_bundle_size = ''5GB'', price = 4000, p_active = True\<rparr>,
      \<lparr>p_network = ''MTN'', p_bundle_size = ''10GB'', price = 7500, p_active = True\<rparr>,
      \<lparr>p_network = ''Telecel'', p_bundle_size = ''1GB'', price = 900, p_active = True\<rparr>,
      \<lparr>p_network = ''Telecel'', p_bundle_size = ''2GB'', price = 1700, p_active = True\<rparr>,
      \<lparr>p_network = ''Telecel'', p_bundle_size = ''5GB'', price = 3800, p_active = True\<rparr>,
      \<lparr>p_network = ''Telecel'', p_bundle_size = ''10GB'', price = 7200, p_active = True\<rparr>,
      \<lparr>p_network = ''AirtelTigo'', p_bundle_size = ''1GB'', price = 800, p_active = True\<rparr>,
      \<lparr>p_network = ''AirtelTigo'', p_bundle_size = ''2GB'', price = 1500, p_active = True\<rparr>,
      \<lparr>p_network = ''AirtelTigo'', p_bundle_size = ''5GB'', price = 3500, p_active = True\<rparr>,
      \<lparr>p_network = ''AirtelTigo'', p_bundle_size = ''10GB'', price = 6800, p_active = True\<rparr>]"

definition initial_db :: db where
  "initial_db =
     \<lparr>users = [\<lparr>u_id = 1, u_email = ''admin@buybuzz.com''\<rparr>],
      wallets = Map.empty,
      wallet_transactions = [],
      orders = [],
      order_sequence = [4000],
      data_bundle_products = default_products\<rparr>"

text \<open>Two users have signed up (user and wallet row each, balance 0.00) and user 2 has
  started a top-up of 20.00 with reference \<open>R1\<close>, which is pending.\<close>

definition topup_db :: db where
  "topup_db =
     initial_db
       \<lparr>users := users initial_db @
          [\<lparr>u_id = 2, u_email = ''ama@example.com''\<rparr>, \<lparr>u_id = 3, u_email = ''kofi@example.com''\<rparr>],
        wallets := [2 \<mapsto> \<lparr>balance = 0, level = Bronze\<rparr>, 3 \<mapsto> \<lparr>balance = 0, level = Bronze\<rparr>],
        wallet_transactions :=
          [\<lparr>tx_user_id = 2, transaction_id = ''PAY-1700000000000-k3x9q2m1z'', reference = Some ''R1'',
            tx_type = credit, amount = 2000, status = pending,
            description = ''Wallet top-up via Paystack''\<rparr>]\<rparr>"

text \<open>The same users with money in their wallets: 50.00, 100.00 and, for user 4, 30.00.\<close>

definition funded_db :: db where
  "funded_db =
     initial_db
       \<lparr>users := users initial_db @
          [\<lparr>u_id = 2, u_email = ''ama@example.com''\<rparr>, \<lparr>u_id = 3, u_email = ''kofi@example.com''\<rparr>,
           \<lparr>u_id = 4, u_email = ''esi@example.com''\<rparr>, \<lparr>u_id = 5, u_email = ''yaw@example.com''\<rparr>],
        wallets := [2 \<mapsto> \<lparr>balance = 5000, level = Bronze\<rparr>, 3 \<mapsto> \<lparr>balance = 10000, level = Bronze\<rparr>,
                    4 \<mapsto> \<lparr>balance = 3000, level = Bronze\<rparr>, 5 \<mapsto> \<lparr>balance = 0, level = Bronze\<rparr>]\<rparr>"

text \<open>Two purchases in a row from \<open>funded_db\<close>: user 2 (50.00) buys MTN 1GB (10.00),
  then user 4 (30.00) buys Telecel 2GB (17.00). Both pass the balance check of the code:
  \<open>''50.00''\<close> is not below \<open>''10.00''\<close>, and \<open>''30.00''\<close> is not below \<open>''17.00''\<close>.\<close>

definition first_purchase :: request where
  "first_purchase = Buy 2 ''MTN'' ''1GB'' ''0241234567'' 1700000000000 ''k3x9q2m1z''"

definition second_purchase_db :: db where
  "second_purchase_db =
     snd (buy (run funded_db [first_purchase]) 4 ''Telecel'' ''2GB'' ''0201234567''
            1700000005000 ''p0o9i8u7y'')"


text \<open>A webhook request for reference \<open>R1\<close> with a JSON body that \<open>express.json()\<close>
  accepts, and a manual verification of \<open>R1\<close> by user 2 that the provider answers with
  success and 20.00.\<close>

definition r1_webhook :: request where
  "r1_webhook = Webhook False (Some ''9f2c'')"

definition r1_verify :: request where
  "r1_verify = Verify 2 ''R1'' (Some (''success'', 2000))"

text \<open>One user with 9.00 in the wallet, the products and the counter as \<open>initializeDB\<close>
  leaves them.\<close>

definition nine_db :: db where
  "nine_db =
     initial_db
       \<lparr>users := users initial_db @ [\<lparr>u_id = 2, u_email = ''ama@example.com''\<rparr>],
        wallets := [2 \<mapsto> \<lparr>balance = 900, level = Bronze\<rparr>]\<rparr>"

text \<open>The amount \<open>"100"\<close> sent as a JSON string: a positive number, 100.00 to MySQL.\<close>

definition hundred_as_string :: string_amount where
  "hundred_as_string = \<lparr>sa_text = ''100'', sa_nonpos = False, sa_sql = Some 10000\<rparr>"

section \<open>Properties\<close>

subsection \<open>Facts about the helpers\<close>

lemma add_balance_same:
  "ws u = Some w \<Longrightarrow> add_balance ws u x u = Some (w\<lparr>balance := balance w + x\<rparr>)"
  by (simp add: add_balance_def)

lemma add_balance_other: "v \<noteq> u \<Longrightarrow> add_balance ws v x u = ws u"
  by (simp add: add_balance_def split: option.splits)

lemma add_balance_absent: "ws v = None \<Longrightarrow> add_balance ws v x = ws"
  by (simp add: add_balance_def)

lemma add_balance_eq_None: "add_balance ws v x u = None \<longleftrightarrow> ws u = None"
  by (simp add: add_balance_def split: option.splits)

subsection \<open>Rendering is injective\<close>





subsection \<open>Handlers that leave orders and the counter alone\<close>

lemma webhook_unchanged: "snd (post_webhook_paystack d rejected s) = d"
  by (simp add: post_webhook_paystack_def paystack_webhook_def)

lemma verify_frame:
  "orders (snd (topup_verify d uid ref pr)) = orders d \<and>
   order_sequence (snd (topup_verify d uid ref pr)) = order_sequence d"
  by (simp add: topup_verify_def Let_def split: option.splits prod.splits)

lemma transfer_frame:
  "orders (snd (transfer d uid email rcpt amt note now1 now2)) = orders d \<and>
   order_sequence (snd (transfer d uid email rcpt amt note now1 now2)) = order_sequence d"
  by (simp add: transfer_def Let_def split: option.splits list.splits)

lemma transfer_commit_frame:
  "orders (snd (transfer_commit d uid email rcpt r amt nt now1 now2)) = orders d \<and>
   order_sequence (snd (transfer_commit d uid email rcpt r amt nt now1 now2)) = order_sequence d"
  by (simp add: transfer_commit_def insert_transaction_def Let_def split: option.splits)

lemma transfer_string_frame:
  "orders (snd (transfer_string d uid email rcpt a nt now1 now2)) = orders d \<and>
   order_sequence (snd (transfer_string d uid email rcpt a nt now1 now2)) = order_sequence d"
  by (simp add: transfer_string_def transfer_commit_frame split: option.splits list.splits)

subsection \<open>What a purchase does\<close>

lemma buy_check_Inr:
  assumes "buy_check d uid net bsize ben = Inr (pr, k)"
  shows "\<exists>p ps w n ns.
     filter (\<lambda>p. p_network p = net \<and> p_bundle_size p = bsize \<and> p_active p)
       (data_bundle_products d) = p # ps \<and>
     wallets d uid = Some w \<and>
     \<not> js_less (decimal_str (balance w)) (decimal_str (price p)) \<and>
     order_sequence d = n # ns \<and>
     pr = price p \<and> k = Suc n"
  using assms unfolding buy_check_def
  by (simp split: if_splits list.splits option.splits)

lemma buy_commit_Inl:
  "fst (buy_commit d uid net bsize ben pr k now rnd) = Inl e \<Longrightarrow>
   snd (buy_commit d uid net bsize ben pr k now rnd) = d"
  unfolding buy_commit_def insert_transaction_def insert_order_def Let_def
  by (simp split: if_splits)

lemma buy_commit_Inr:
  assumes "buy_commit d uid net bsize ben pr k now rnd = (Inr r, d')"
  shows "''DATA-'' @ dec now @ ''-'' @ rnd \<notin> transaction_id ` set (wallet_transactions d) \<and>
     order_code k \<notin> order_id ` set (orders d) \<and>
     r = \<lparr>br_order_id = order_code k, br_amount = pr, br_status = processing,
          br_beneficiary = ben\<rparr> \<and>
     d' = d\<lparr>wallets := add_balance (wallets d) uid (- pr),
            wallet_transactions := wallet_transactions d @
              [\<lparr>tx_user_id = uid, transaction_id = ''DATA-'' @ dec now @ ''-'' @ rnd,
                reference = None, tx_type = debit, amount = pr, status = completed,
                description = net @ '' '' @ bsize @ '' data bundle''\<rparr>],
            orders := orders d @
              [\<lparr>order_id = order_code k, o_user_id = uid, order_type = ''data_bundle'',
                product_name = net @ '' '' @ bsize, network = net, bundle_size = bsize,
                o_amount = pr, beneficiary_number = ben, o_status = processing\<rparr>],
            order_sequence := map Suc (order_sequence d)\<rparr>"
  using assms unfolding buy_commit_def insert_transaction_def insert_order_def Let_def
  by (simp split: if_splits)


lemma buy_Inl_unchanged:
  assumes "fst (buy d uid net bsize ben now rnd) = Inl e"
  shows "snd (buy d uid net bsize ben now rnd) = d"
proof (cases "buy_check d uid net bsize ben")
  case (Inl a)
  then show ?thesis by (simp add: buy_def)
next
  case (Inr b)
  obtain pr k where b: "b = (pr, k)" by (cases b)
  with Inr assms show ?thesis
    by (simp add: buy_def buy_commit_Inl)
qed

lemma buy_success:
  assumes "buy d uid net bsize ben now rnd = (Inr r, d')"
  shows "\<exists>p ps w n ns.
     filter (\<lambda>p. p_network p = net \<and> p_bundle_size p = bsize \<and> p_active p)
       (data_bundle_products d) = p # ps \<and>
     wallets d uid = Some w \<and>
     \<not> js_less (decimal_str (balance w)) (decimal_str (price p)) \<and>
     order_sequence d = n # ns \<and>
     ''DATA-'' @ dec now @ ''-'' @ rnd \<notin> transaction_id ` set (wallet_transactions d) \<and>
     order_code (Suc n) \<notin> order_id ` set (orders d) \<and>
     r = \<lparr>br_order_id = order_code (Suc n), br_amount = price p, br_status = processing,
          br_beneficiary = ben\<rparr> \<and>
     d' = d\<lparr>wallets := (wallets d)(uid \<mapsto> w\<lparr>balance := balance w - price p\<rparr>),
            wallet_transactions := wallet_transactions d @
              [\<lparr>tx_user_id = uid, transaction_id = ''DATA-'' @ dec now @ ''-'' @ rnd,
                reference = None, tx_type = debit, amount = price p, status = completed,
                description = net @ '' '' @ bsize @ '' data bundle''\<rparr>],
            orders := orders d @
              [\<lparr>order_id = order_code (Suc n), o_user_id = uid, order_type = ''data_bundle'',
                product_name = net @ '' '' @ bsize, network = net, bundle_size = bsize,
                o_amount = price p, beneficiary_number = ben, o_status = processing\<rparr>],
            order_sequence := map Suc (n # ns)\<rparr>"
proof (cases "buy_check d uid net bsize ben")
  case (Inl a)
  with assms show ?thesis by (simp add: buy_def)
next
  case (Inr b)
  obtain pr k where b: "b = (pr, k)" by (cases b)
  from Inr b have chk: "buy_check d uid net bsize ben = Inr (pr, k)" by simp
  with assms have com: "buy_commit d uid net bsize ben pr k now rnd = (Inr r, d')"
    by (simp add: buy_def)
  from buy_check_Inr [OF chk] obtain p ps w n ns where
    sel: "filter (\<lambda>p. p_network p = net \<and> p_bundle_size p = bsize \<and> p_active p)
            (data_bundle_products d) = p # ps"
    and w: "wallets d uid = Some w"
    and le: "\<not> js_less (decimal_str (balance w)) (decimal_str (price p))"
    and sq: "order_sequence d = n # ns" and pr: "pr = price p" and k: "k = Suc n"
    by blast
  from w have ab: "add_balance (wallets d) uid (- price p)
        = (wallets d)(uid \<mapsto> w\<lparr>balance := balance w - price p\<rparr>)"
    by (simp add: add_balance_def)
  from buy_commit_Inr [OF com] sel w le sq show ?thesis
    unfolding pr k ab by simp
qed

subsection \<open>What a transfer does\<close>

lemma transfer_result:
  assumes "transfer d uid email rcpt amt nt now1 now2 = (res, d')"
  shows "(\<exists>e. res = Inl e \<and> d' = d) \<or>
   (\<exists>nb r rs w.
     res = Inr nb \<and> rcpt \<noteq> [] \<and> 0 < amt \<and> rcpt \<noteq> email \<and>
     filter (\<lambda>u. u_email u = rcpt) (users d) = r # rs \<and>
     wallets d uid = Some w \<and> amt \<le> balance w \<and>
     d' = d\<lparr>wallets := add_balance (add_balance (wallets d) uid (- amt)) (u_id r) amt,
            wallet_transactions := wallet_transactions d @
              [\<lparr>tx_user_id = uid, transaction_id = ''TRANSFER-OUT-'' @ dec now1,
                reference = None, tx_type = transfer_out, amount = amt, status = completed,
                description = ''Transfer to '' @ rcpt @ note_suffix nt\<rparr>,
               \<lparr>tx_user_id = u_id r, transaction_id = ''TRANSFER-IN-'' @ dec now2,
                reference = None, tx_type = transfer_in, amount = amt, status = completed,
                description = ''Transfer from '' @ email @ note_suffix nt\<rparr>]\<rparr>)"
  using assms unfolding transfer_def insert_transaction_def Let_def
  by (auto simp: add_balance_eq_None split: if_splits list.splits option.splits)

lemma transfer_Inl_unchanged:
  assumes "fst (transfer d uid email rcpt amt nt now1 now2) = Inl e"
  shows "snd (transfer d uid email rcpt amt nt now1 now2) = d"
proof -
  obtain res d' where t: "transfer d uid email rcpt amt nt now1 now2 = (res, d')"
    by (cases "transfer d uid email rcpt amt nt now1 now2")
  from transfer_result [OF t] assms t show ?thesis by auto
qed


text \<open>When the recipient is another user with a wallet row, a transfer moves the amount
  from one balance to the other and writes two entries, or changes nothing.\<close>

lemma transfer_both_or_neither:
  assumes t: "transfer d uid email rcpt amt nt now1 now2 = (res, d')"
    and rc: "filter (\<lambda>u. u_email u = rcpt) (users d) = r # rs"
    and wr: "wallets d (u_id r) = Some wr" and ne: "u_id r \<noteq> uid"
  shows "(\<exists>e. res = Inl e \<and> d' = d) \<or>
         (\<exists>nb ws. res = Inr nb \<and> wallets d uid = Some ws \<and>
            wallets d' uid = Some (ws\<lparr>balance := balance ws - amt\<rparr>) \<and>
            wallets d' (u_id r) = Some (wr\<lparr>balance := balance wr + amt\<rparr>) \<and>
            length (wallet_transactions d') = length (wallet_transactions d) + 2)"
  using transfer_result [OF t] rc wr ne
  by (auto simp: add_balance_def)

text \<open>Past its checks, \<open>transfer\<close> runs the statements of \<open>transfer_commit\<close>.\<close>

lemma transfer_runs_commit:
  assumes "rcpt \<noteq> []" and "0 < amt" and "rcpt \<noteq> email"
    and "filter (\<lambda>u. u_email u = rcpt) (users d) = r # rs"
    and "wallets d uid = Some w" and "amt \<le> balance w"
  shows "transfer d uid email rcpt amt nt now1 now2 =
         transfer_commit d uid email rcpt r amt nt now1 now2"
  using assms by (simp add: transfer_def transfer_commit_def)

subsection \<open>The counter never goes back, and no order code is above it\<close>



lemma codes_below_handle:
  assumes "codes_below d"
  shows "codes_below (handle d r)"
proof (cases r)
  case (Buy uid net bsize ben now rnd)
  show ?thesis
  proof (cases "fst (buy d uid net bsize ben now rnd)")
    case (Inl e)
    then show ?thesis using Buy assms by (simp add: buy_Inl_unchanged)
  next
    case (Inr b)
    then have "buy d uid net bsize ben now rnd = (Inr b, handle d r)"
      using Buy by (simp add: prod_eq_iff)
    from buy_success [OF this] obtain n ns x where
      sq: "order_sequence d = n # ns"
      and os: "orders (handle d r) = orders d @ [x]" and x: "order_id x = order_code (Suc n)"
      and sq': "order_sequence (handle d r) = map Suc (n # ns)"
      by auto
    from assms sq have "\<forall>y \<in> set (orders d). \<exists>k \<le> n. order_id y = order_code k"
      by (simp add: codes_below_def seq_head_def)
    then have "\<forall>y \<in> set (orders d). \<exists>k \<le> Suc n. order_id y = order_code k"
      using le_SucI by blast
    with x show ?thesis
      unfolding codes_below_def seq_head_def os sq' by auto
  qed
next
  case (Webhook rejected s)
  with assms show ?thesis by (simp add: webhook_unchanged)
next
  case (Verify uid rf prov)
  with assms show ?thesis by (simp add: codes_below_def seq_head_def verify_frame)
next
  case (Transfer uid email rcpt amt nt now1 now2)
  with assms show ?thesis by (simp add: codes_below_def seq_head_def transfer_frame)
next
  case (Transfer_string uid email rcpt a nt now1 now2)
  with assms show ?thesis by (simp add: codes_below_def seq_head_def transfer_string_frame)
qed

lemma codes_below_run: "codes_below d \<Longrightarrow> codes_below (run d rs)"
  by (induction rs arbitrary: d) (simp_all add: codes_below_handle)

subsection \<open>Purchases and transfers keep balance and ledger together\<close>

lemma buy_reconstructs:
  assumes b: "buy d uid net bsize ben now rnd = (res, d')" and inv: "reconstructs d u"
  shows "reconstructs d' u"
proof (cases res)
  case (Inl e)
  with b buy_Inl_unchanged [of d uid net bsize ben now rnd e] inv show ?thesis by simp
next
  case (Inr r)
  with b have "buy d uid net bsize ben now rnd = (Inr r, d')" by simp
  from buy_success [OF this] inv show ?thesis
    by (auto simp: reconstructs_def ledger_net_def split: option.splits)
qed

lemma transfer_reconstructs:
  assumes t: "transfer d uid email rcpt amt nt now1 now2 = (res, d')" and inv: "reconstructs d u"
  shows "reconstructs d' u"
proof -
  from inv obtain wu where wu: "wallets d u = Some wu" and bal: "balance wu = ledger_net d u"
    by (auto simp: reconstructs_def split: option.splits)
  from transfer_result [OF t] show ?thesis
  proof
    assume "\<exists>e. res = Inl e \<and> d' = d"
    with inv show ?thesis by auto
  next
    assume "\<exists>nb r rs w.
     res = Inr nb \<and> rcpt \<noteq> [] \<and> 0 < amt \<and> rcpt \<noteq> email \<and>
     filter (\<lambda>u. u_email u = rcpt) (users d) = r # rs \<and>
     wallets d uid = Some w \<and> amt \<le> balance w \<and>
     d' = d\<lparr>wallets := add_balance (add_balance (wallets d) uid (- amt)) (u_id r) amt,
            wallet_transactions := wallet_transactions d @
              [\<lparr>tx_user_id = uid, transaction_id = ''TRANSFER-OUT-'' @ dec now1,
                reference = None, tx_type = transfer_out, amount = amt, status = completed,
                description = ''Transfer to '' @ rcpt @ note_suffix nt\<rparr>,
               \<lparr>tx_user_id = u_id r, transaction_id = ''TRANSFER-IN-'' @ dec now2,
                reference = None, tx_type = transfer_in, amount = amt, status = completed,
                description = ''Transfer from '' @ email @ note_suffix nt\<rparr>]\<rparr>"
    then obtain r :: user_row where
      ws: "wallets d' = add_balance (add_balance (wallets d) uid (- amt)) (u_id r) amt"
      and ts: "wallet_transactions d' = wallet_transactions d @
              [\<lparr>tx_user_id = uid, transaction_id = ''TRANSFER-OUT-'' @ dec now1,
                reference = None, tx_type = transfer_out, amount = amt, status = completed,
                description = ''Transfer to '' @ rcpt @ note_suffix nt\<rparr>,
               \<lparr>tx_user_id = u_id r, transaction_id = ''TRANSFER-IN-'' @ dec now2,
                reference = None, tx_type = transfer_in, amount = amt, status = completed,
                description = ''Transfer from '' @ email @ note_suffix nt\<rparr>]"
      by auto
    have net: "ledger_net d' u =
        ledger_net d u + (if uid = u then - amt else 0) + (if u_id r = u then amt else 0)"
      by (simp add: ledger_net_def ts)
    have "\<exists>w'. wallets d' u = Some w' \<and>
        balance w' = balance wu + (if uid = u then - amt else 0) + (if u_id r = u then amt else 0)"
      using wu by (auto simp: ws add_balance_def split: option.splits)
    with net bal show ?thesis by (auto simp: reconstructs_def)
  qed
qed

subsection \<open>Evaluating the two purchases\<close>

lemma second_purchase_eval:
  "buy (run funded_db [first_purchase]) 4 ''Telecel'' ''2GB'' ''0201234567'' 1700000005000
       ''p0o9i8u7y'' =
     (Inr \<lparr>br_order_id = ''BUZZ-4002'', br_amount = 1700, br_status = processing,
           br_beneficiary = ''0201234567''\<rparr>, second_purchase_db)"
  unfolding second_purchase_db_def prod_eq_iff
  by (simp add: first_purchase_def buy_def buy_check_def buy_commit_def insert_order_def
      insert_transaction_def add_balance_def funded_db_def initial_db_def default_products_def
      order_code_def decimal_str_def dec.simps digit_def)



subsection \<open>Evaluating the transfer of 30.00\<close>


subsection \<open>Reading a wallet that has no row\<close>

text \<open>
  Claim C10. When the account has no row in \<open>wallets\<close>, neither \<open>GET /api/wallet\<close> nor
  \<open>GET /api/dashboard\<close> fails: both answer with a wallet of balance 0 and level Bronze.
\<close>

theorem wallet_read_defaults:
  assumes "wallets d uid = None"
  shows "(\<exists>r. get_wallet d uid = Inr r \<and> wr_wallet r = \<lparr>balance = 0, level = Bronze\<rparr>) \<and>
         (\<exists>r. get_dashboard d uid = Inr r \<and> dr_wallet r = \<lparr>balance = 0, level = Bronze\<rparr>)"
  using assms by (simp add: get_wallet_def get_dashboard_def)

theorem wallet_read_defaults_witness:
  "wallets initial_db 1 = None \<and>
   (\<exists>r. get_wallet initial_db 1 = Inr r \<and> wr_wallet r = \<lparr>balance = 0, level = Bronze\<rparr>) \<and>
   (\<exists>r. get_dashboard initial_db 1 = Inr r \<and> dr_wallet r = \<lparr>balance = 0, level = Bronze\<rparr>)"
proof -
  have h: "wallets initial_db 1 = None" by (simp add: initial_db_def)
  show ?thesis using h wallet_read_defaults [OF h] by simp
qed

subsection \<open>The webhook's signature check\<close>

text \<open>With a digest in hand, the handler refuses a signature that differs from it and
  touches nothing.\<close>

lemma handler_refuses_other_signature:
  "signature \<noteq> Some hash \<Longrightarrow>
   paystack_webhook d (Some hash) signature parsed = (Inl (Http 401 ''Invalid signature''), d)"
  by (auto simp: paystack_webhook_def)

text \<open>
  Claim C9 asks that a request whose signature does not match is answered with an
  invalid-signature error and changes nothing. The handler has that branch (lines
  424-426) but a request never reaches it: the body was parsed by \<open>express.json()\<close>
  before the handler runs, the digest call throws on it, and the request ends in the
  outer \<open>catch\<close> with 500 \<open>Webhook processing failed\<close>, whatever the signature header
  holds; a body that \<open>express.json()\<close> rejects ends in the error handler with 500. The
  database is unchanged, as the claim says, but the error is not the one it says.
\<close>

theorem webhook_wrong_signature_answers_500:
  "post_webhook_paystack topup_db False (Some ''00ff'') =
     (Inl (Http 500 ''Webhook processing failed''), topup_db) \<and>
   post_webhook_paystack topup_db False None =
     (Inl (Http 500 ''Webhook processing failed''), topup_db)"
  by (simp add: post_webhook_paystack_def paystack_webhook_def)

subsection \<open>A purchase the balance does not cover\<close>

text \<open>The check refuses a purchase, and leaves everything as it was, when the balance's
  string is below the price's string.\<close>

lemma buy_refused_unchanged:
  assumes "net \<in> set [''MTN'', ''Telecel'', ''AirtelTigo'']"
    and "bsize \<noteq> []" and "beneficiary \<noteq> []"
    and "filter (\<lambda>p. p_network p = net \<and> p_bundle_size p = bsize \<and> p_active p)
           (data_bundle_products d) = p # ps"
    and "wallets d uid = Some w"
    and "js_less (decimal_str (balance w)) (decimal_str (price p))"
  shows "buy d uid net bsize beneficiary now rnd =
           (Inl (Http 400 ''Insufficient wallet balance''), d)"
  using assms by (simp add: buy_def buy_check_def)

text \<open>
  Claim C5 asks that a purchase whose price exceeds the balance is refused and changes
  nothing. The check at line 579 compares the two strings that the queries returned.
  User 2 has 9.00 and buys MTN 1GB at 10.00: \<open>''9.00''\<close> is not below \<open>''10.00''\<close>, so
  the purchase goes through. The balance becomes -1.00, the order \<open>BUZZ-4001\<close> and a
  ledger entry are written, and the counter moves to 4001.
\<close>

theorem buy_above_balance_goes_through:
  "wallets nine_db 2 = Some \<lparr>balance = 900, level = Bronze\<rparr> \<and>
   decimal_str 900 = ''9.00'' \<and> decimal_str 1000 = ''10.00'' \<and>
   buy_check nine_db 2 ''MTN'' ''1GB'' ''0241234567'' = Inr (1000, 4001) \<and>
   fst (buy nine_db 2 ''MTN'' ''1GB'' ''0241234567'' 1700000000000 ''k3x9q2m1z'') =
     Inr \<lparr>br_order_id = ''BUZZ-4001'', br_amount = 1000, br_status = processing,
          br_beneficiary = ''0241234567''\<rparr> \<and>
   wallets (snd (buy nine_db 2 ''MTN'' ''1GB'' ''0241234567'' 1700000000000 ''k3x9q2m1z'')) 2 =
     Some \<lparr>balance = - 100, level = Bronze\<rparr> \<and>
   map order_id
     (orders (snd (buy nine_db 2 ''MTN'' ''1GB'' ''0241234567'' 1700000000000 ''k3x9q2m1z''))) =
     [''BUZZ-4001''] \<and>
   map tx_type (wallet_transactions
     (snd (buy nine_db 2 ''MTN'' ''1GB'' ''0241234567'' 1700000000000 ''k3x9q2m1z''))) = [debit] \<and>
   order_sequence (snd (buy nine_db 2 ''MTN'' ''1GB'' ''0241234567'' 1700000000000 ''k3x9q2m1z'')) =
     [4001]"
  by (simp add: buy_def buy_check_def buy_commit_def insert_order_def insert_transaction_def
      add_balance_def nine_db_def initial_db_def default_products_def order_code_def
      decimal_str_def dec.simps digit_def)

subsection \<open>What a successful purchase records\<close>

text \<open>
  Claim C6, as the code has it. Every successful purchase appends exactly one ledger
  entry, completed, for the product's price, and its type is \<open>debit\<close> (the code never
  writes type \<open>purchase\<close>); it appends exactly one order, in status \<open>processing\<close>, with
  code \<open>BUZZ-n\<close>; the caller's balance goes down by the price. In every state reached
  by purchases, transfers, webhooks and verifications from a state without orders, no
  earlier order has that code and every earlier order's code was rendered from a number
  strictly below \<open>n\<close>.
\<close>

theorem buy_success_effects:
  assumes "orders d0 = []"
    and "buy (run d0 reqs) uid net bsize ben now rnd = (Inr r, d')"
  shows "\<exists>p ps w n e x.
     filter (\<lambda>p. p_network p = net \<and> p_bundle_size p = bsize \<and> p_active p)
       (data_bundle_products (run d0 reqs)) = p # ps \<and>
     wallets (run d0 reqs) uid = Some w \<and>
     wallets d' = (wallets (run d0 reqs))(uid \<mapsto> w\<lparr>balance := balance w - price p\<rparr>) \<and>
     wallet_transactions d' = wallet_transactions (run d0 reqs) @ [e] \<and>
     tx_user_id e = uid \<and> tx_type e = debit \<and> status e = completed \<and> amount e = price p \<and>
     orders d' = orders (run d0 reqs) @ [x] \<and>
     o_user_id x = uid \<and> o_status x = processing \<and> o_amount x = price p \<and>
     order_id x = order_code n \<and>
     br_order_id r = order_code n \<and> br_status r = processing \<and> br_amount r = price p \<and>
     (\<forall>y \<in> set (orders (run d0 reqs)).
        order_id y \<noteq> order_code n \<and> (\<exists>k<n. order_id y = order_code k))"
proof -
  define d where "d = run d0 reqs"
  from assms(1) have "codes_below d0" by (simp add: codes_below_def)
  then have inv: "codes_below d" unfolding d_def by (rule codes_below_run)
  from assms(2) have b: "buy d uid net bsize ben now rnd = (Inr r, d')" by (simp add: d_def)
  from buy_success [OF b] obtain p ps w n ns where
    sel: "filter (\<lambda>p. p_network p = net \<and> p_bundle_size p = bsize \<and> p_active p)
            (data_bundle_products d) = p # ps"
    and w: "wallets d uid = Some w" and sq: "order_sequence d = n # ns"
    and fresh: "order_code (Suc n) \<notin> order_id ` set (orders d)"
    and r: "r = \<lparr>br_order_id = order_code (Suc n), br_amount = price p, br_status = processing,
          br_beneficiary = ben\<rparr>"
    and d': "d' = d\<lparr>wallets := (wallets d)(uid \<mapsto> w\<lparr>balance := balance w - price p\<rparr>),
            wallet_transactions := wallet_transactions d @
              [\<lparr>tx_user_id = uid, transaction_id = ''DATA-'' @ dec now @ ''-'' @ rnd,
                reference = None, tx_type = debit, amount = price p, status = completed,
                description = net @ '' '' @ bsize @ '' data bundle''\<rparr>],
            orders := orders d @
              [\<lparr>order_id = order_code (Suc n), o_user_id = uid, order_type = ''data_bundle'',
                product_name = net @ '' '' @ bsize, network = net, bundle_size = bsize,
                o_amount = price p, beneficiary_number = ben, o_status = processing\<rparr>],
            order_sequence := map Suc (n # ns)\<rparr>"
    by blast
  from inv sq have below: "\<forall>y \<in> set (orders d). \<exists>k \<le> n. order_id y = order_code k"
    by (simp add: codes_below_def seq_head_def)
  have older: "\<forall>y \<in> set (orders d).
        order_id y \<noteq> order_code (Suc n) \<and> (\<exists>k<Suc n. order_id y = order_code k)"
  proof
    fix y assume y: "y \<in> set (orders d)"
    with below obtain k where "k \<le> n" and "order_id y = order_code k" by blast
    moreover from y fresh have "order_id y \<noteq> order_code (Suc n)" by force
    ultimately show "order_id y \<noteq> order_code (Suc n) \<and> (\<exists>k<Suc n. order_id y = order_code k)"
      using le_imp_less_Suc by blast
  qed
  show ?thesis
    unfolding d_def [symmetric]
    apply (rule exI [where x = p], rule exI [where x = ps], rule exI [where x = w],
           rule exI [where x = "Suc n"])
    apply (rule exI [where x = "\<lparr>tx_user_id = uid, transaction_id = ''DATA-'' @ dec now @ ''-'' @ rnd,
                reference = None, tx_type = debit, amount = price p, status = completed,
                description = net @ '' '' @ bsize @ '' data bundle''\<rparr>"])
    apply (rule exI [where x = "\<lparr>order_id = order_code (Suc n), o_user_id = uid, order_type = ''data_bundle'',
                product_name = net @ '' '' @ bsize, network = net, bundle_size = bsize,
                o_amount = price p, beneficiary_number = ben, o_status = processing\<rparr>"])
    using sel w older by (simp add: r d')
qed

theorem buy_success_effects_witness:
  "orders funded_db = [] \<and>
   buy (run funded_db [first_purchase]) 4 ''Telecel'' ''2GB'' ''0201234567'' 1700000005000
       ''p0o9i8u7y'' =
     (Inr \<lparr>br_order_id = ''BUZZ-4002'', br_amount = 1700, br_status = processing,
           br_beneficiary = ''0201234567''\<rparr>, second_purchase_db) \<and>
   (\<exists>p ps w n e x.
     filter (\<lambda>p. p_network p = ''Telecel'' \<and> p_bundle_size p = ''2GB'' \<and> p_active p)
       (data_bundle_products (run funded_db [first_purchase])) = p # ps \<and>
     wallets (run funded_db [first_purchase]) 4 = Some w \<and>
     wallets second_purchase_db =
       (wallets (run funded_db [first_purchase]))(4 \<mapsto> w\<lparr>balance := balance w - price p\<rparr>) \<and>
     wallet_transactions second_purchase_db =
       wallet_transactions (run funded_db [first_purchase]) @ [e] \<and>
     tx_user_id e = 4 \<and> tx_type e = debit \<and> status e = completed \<and> amount e = price p \<and>
     orders second_purchase_db = orders (run funded_db [first_purchase]) @ [x] \<and>
     o_user_id x = 4 \<and> o_status x = processing \<and> o_amount x = price p \<and>
     order_id x = order_code n \<and>
     br_order_id \<lparr>br_order_id = ''BUZZ-4002'', br_amount = 1700, br_status = processing,
           br_beneficiary = ''0201234567''\<rparr> = order_code n \<and>
     br_status \<lparr>br_order_id = ''BUZZ-4002'', br_amount = 1700, br_status = processing,
           br_beneficiary = ''0201234567''\<rparr> = processing \<and>
     br_amount \<lparr>br_order_id = ''BUZZ-4002'', br_amount = 1700, br_status = processing,
           br_beneficiary = ''0201234567''\<rparr> = price p \<and>
     (\<forall>y \<in> set (orders (run funded_db [first_purchase])).
        order_id y \<noteq> order_code n \<and> (\<exists>k<n. order_id y = order_code k)))"
proof -
  have h1: "orders funded_db = []" by (simp add: funded_db_def initial_db_def)
  note h2 = second_purchase_eval
  from buy_success_effects [OF h1 h2] h1 h2 show ?thesis by (intro conjI)
qed

text \<open>The claim as stated asks for an entry of type \<open>purchase\<close>. User 2 (balance 50.00)
  buys MTN 1GB (10.00): the purchase succeeds and the one entry written is a \<open>debit\<close>.\<close>

theorem purchase_kind_counterexample:
  "fst (buy funded_db 2 ''MTN'' ''1GB'' ''0241234567'' 1700000000000 ''k3x9q2m1z'') =
     Inr \<lparr>br_order_id = ''BUZZ-4001'', br_amount = 1000, br_status = processing,
          br_beneficiary = ''0241234567''\<rparr> \<and>
   map tx_type (wallet_transactions
     (snd (buy funded_db 2 ''MTN'' ''1GB'' ''0241234567'' 1700000000000 ''k3x9q2m1z''))) = [debit] \<and>
   debit \<noteq> purchase"
  by (simp add: buy_def buy_check_def buy_commit_def insert_order_def insert_transaction_def
      funded_db_def initial_db_def default_products_def order_code_def decimal_str_def
      dec.simps digit_def)

subsection \<open>Allocating order codes\<close>




subsection \<open>The two ledger entries of a transfer\<close>




subsection \<open>A transfer to a user without a wallet row\<close>

text \<open>
  Claim C4 asks that a transfer changes both balances or neither. \<open>initializeDB\<close>
  inserts the admin user without a wallet row. A transfer of 30.00 from user 4 to
  \<open>admin@buybuzz.com\<close> passes every check: the sender's wallet is debited and both
  ledger entries are written, but the recipient's \<open>UPDATE wallets\<close> matches no row, so
  no wallet is credited. Exactly one side has changed.
\<close>

theorem transfer_to_walletless_recipient:
  "fst (transfer funded_db 4 ''esi@example.com'' ''admin@buybuzz.com'' 3000 [] 1700000000000
          1700000000002) = Inr 0 \<and>
   wallets funded_db 4 = Some \<lparr>balance = 3000, level = Bronze\<rparr> \<and>
   wallets funded_db 1 = None \<and>
   wallets (snd (transfer funded_db 4 ''esi@example.com'' ''admin@buybuzz.com'' 3000 []
                   1700000000000 1700000000002)) =
     (wallets funded_db)(4 \<mapsto> \<lparr>balance = 0, level = Bronze\<rparr>) \<and>
   wallets (snd (transfer funded_db 4 ''esi@example.com'' ''admin@buybuzz.com'' 3000 []
                   1700000000000 1700000000002)) 1 = None \<and>
   map tx_type (wallet_transactions
     (snd (transfer funded_db 4 ''esi@example.com'' ''admin@buybuzz.com'' 3000 []
             1700000000000 1700000000002))) = [transfer_out, transfer_in] \<and>
   map tx_user_id (wallet_transactions
     (snd (transfer funded_db 4 ''esi@example.com'' ''admin@buybuzz.com'' 3000 []
             1700000000000 1700000000002))) = [4, 1]"
  by (simp add: transfer_def insert_transaction_def add_balance_def funded_db_def initial_db_def)

subsection \<open>Balances below zero\<close>

text \<open>A transfer whose amount arrives as the string \<open>"100"\<close> passes the balance check of
  a sender with 30.00, since \<open>''30.00''\<close> is not below \<open>''100''\<close>, and leaves -70.00.\<close>

lemma string_amount_transfer_eval:
  "wallets funded_db 4 = Some \<lparr>balance = 3000, level = Bronze\<rparr> \<and>
   fst (transfer_string funded_db 4 ''esi@example.com'' ''yaw@example.com'' hundred_as_string []
          1700000000000 1700000000002) = Inr (- 7000) \<and>
   wallets (snd (transfer_string funded_db 4 ''esi@example.com'' ''yaw@example.com''
                   hundred_as_string [] 1700000000000 1700000000002)) 4 =
     Some \<lparr>balance = - 7000, level = Bronze\<rparr>"
  by (simp add: transfer_string_def transfer_commit_def insert_transaction_def add_balance_def
      hundred_as_string_def funded_db_def initial_db_def decimal_str_def dec.simps digit_def)

text \<open>
  Claim C8 asks that a balance of at least 0 stays at least 0 under every purchase,
  transfer, settlement and verification. The purchase debits after a check that compares
  two strings: user 2 has 9.00, buys MTN 1GB at 10.00, and is left with -1.00.
\<close>

theorem purchase_takes_balance_below_zero:
  "wallets nine_db 2 = Some \<lparr>balance = 900, level = Bronze\<rparr> \<and>
   wallets (run nine_db [Buy 2 ''MTN'' ''1GB'' ''0241234567'' 1700000000000 ''k3x9q2m1z'']) 2 =
     Some \<lparr>balance = - 100, level = Bronze\<rparr>"
  by (simp add: buy_def buy_check_def buy_commit_def insert_order_def insert_transaction_def
      add_balance_def nine_db_def initial_db_def default_products_def order_code_def
      decimal_str_def dec.simps digit_def)

subsection \<open>Settling one reference on both paths\<close>

text \<open>
  Claim C1 asks that a reference is credited once however the webhook and the manual
  verification are combined. User 2 has a pending top-up \<open>R1\<close> of 20.00 and balance
  0.00. A webhook request settles nothing, it ends in 500. A manual verification of
  \<open>R1\<close> settles it: balance 20.00, entry completed. A webhook request after that changes
  nothing, but a further manual verification adds 20.00 again: the handler updates the
  balance without looking at the entry's status.
\<close>

theorem verify_after_settlement_credits_again:
  "wallets topup_db 2 = Some \<lparr>balance = 0, level = Bronze\<rparr> \<and>
   map status (wallet_transactions topup_db) = [pending] \<and>
   wallets (run topup_db [r1_webhook]) 2 = Some \<lparr>balance = 0, level = Bronze\<rparr> \<and>
   map status (wallet_transactions (run topup_db [r1_webhook])) = [pending] \<and>
   wallets (run topup_db [r1_verify]) 2 = Some \<lparr>balance = 2000, level = Bronze\<rparr> \<and>
   map status (wallet_transactions (run topup_db [r1_verify])) = [completed] \<and>
   wallets (run topup_db [r1_verify, r1_webhook]) 2 = Some \<lparr>balance = 2000, level = Bronze\<rparr> \<and>
   wallets (run topup_db [r1_verify, r1_webhook, r1_verify]) 2 =
     Some \<lparr>balance = 4000, level = Bronze\<rparr>"
  by (simp add: r1_webhook_def r1_verify_def post_webhook_paystack_def paystack_webhook_def
      topup_verify_def add_balance_def topup_db_def initial_db_def)

subsection \<open>Balance against ledger\<close>

text \<open>
  Claim C2 asks that the balance always equals the net of the account's completed
  entries. It does for user 2 in \<open>topup_db\<close> and after one manual verification of
  \<open>R1\<close>; after a second one the balance is 40.00 and the ledger's net is 20.00.
\<close>

theorem verify_twice_breaks_reconstruction:
  "reconstructs topup_db 2 \<and>
   reconstructs (run topup_db [r1_verify]) 2 \<and>
   wallets (run topup_db [r1_verify, r1_verify]) 2 = Some \<lparr>balance = 4000, level = Bronze\<rparr> \<and>
   ledger_net (run topup_db [r1_verify, r1_verify]) 2 = 2000 \<and>
   \<not> reconstructs (run topup_db [r1_verify, r1_verify]) 2"
  by (simp add: reconstructs_def ledger_net_def r1_verify_def topup_verify_def add_balance_def
      topup_db_def initial_db_def)

end
